theory Spec2Isabelle
  imports Main "HOL-Library.Word" "HOL-Library.AList"
begin

section \<open>Data model of the network package\<close>

text \<open>
  \<open>peer.ID\<close> is a Go string type and a multiaddr is handled here only through its
  string form, so both are strings. \<open>peer.AddrInfo\<close> is the struct \<open>{ID, Addrs}\<close>.
\<close>

type_synonym peer_id = string
type_synonym multiaddr = string

record AddrInfo =
  ID :: peer_id
  Addrs :: "multiaddr list"

text \<open>
  \<open>PeerEvent\<close> as in the source: the type of an event is a string, and the four
  constants are the strings the source declares.
\<close>

record PeerEvent =
  PeerID :: peer_id
  Type :: string
  Desc :: string

definition PeerEventConnected :: string where
  "PeerEventConnected = ''PeerConnected''"

definition PeerEventConnectedFailed :: string where
  "PeerEventConnectedFailed = ''PeerConnectedFailed''"

definition PeerEventDisconnected :: string where
  "PeerEventDisconnected = ''PeerDisconnected''"

definition PeerEventDialConnectedNode :: string where
  "PeerEventDialConnectedNode = ''PeerDialConnectedNode''"

text \<open>
  A Go call either returns (possibly with a non-nil \<open>error\<close>) or panics. Both ways of
  failing are values of \<open>failure\<close>: \<open>Error\<close> is a returned error, \<open>Panic\<close> an
  unrecovered panic carrying its message.
\<close>

datatype failure = Error string | Panic string

section \<open>Address strings\<close>

text \<open>
  \<open>AddrInfoToString\<close>: panics with "Not supported" unless there is exactly one address,
  otherwise the address, \<open>/p2p/\<close> and the identity. \<open>idString\<close> is \<open>peer.ID.String\<close>
  of the libp2p library.
\<close>

definition AddrInfoToString :: "(peer_id \<Rightarrow> string) \<Rightarrow> AddrInfo \<Rightarrow> failure + string" where
  "AddrInfoToString idString addr =
     (if length (Addrs addr) \<noteq> 1 then Inl (Panic ''Not supported'')
      else Inr (Addrs addr ! 0 @ ''/p2p/'' @ idString (ID addr)))"

section \<open>The discovery responder\<close>

text \<open>
  \<open>proto.FindPeersReq\<close> carries a key and a count. The count is only compared and
  assigned, so it is an \<open>int\<close>.
\<close>

record FindPeersReq =
  Key :: string
  Count :: int

text \<open>
  The loop of \<open>discovery.FindPeers\<close> over the peers the routing table returned: the
  requester is skipped, every other peer is looked up in the peerstore (\<open>peerInfo\<close>) and
  converted; a panic of the conversion ends the call.
\<close>

fun FindPeers_filter ::
  "(peer_id \<Rightarrow> string) \<Rightarrow> (peer_id \<Rightarrow> AddrInfo) \<Rightarrow> peer_id \<Rightarrow> peer_id list \<Rightarrow> string list
   \<Rightarrow> failure + string list" where
  "FindPeers_filter idString peerInfo from [] filtered = Inr filtered"
| "FindPeers_filter idString peerInfo from (i # closer) filtered =
     (if i \<noteq> from then
        (case AddrInfoToString idString (peerInfo i) of
           Inl p \<Rightarrow> Inl p
         | Inr s \<Rightarrow> FindPeers_filter idString peerInfo from closer (filtered @ [s]))
      else FindPeers_filter idString peerInfo from closer filtered)"

text \<open>
  \<open>discovery.FindPeers\<close>. The routing table is the kbucket library's:
  \<open>convertKey\<close> is \<open>kb.ConvertKey\<close> and \<open>nearestPeers\<close> is
  \<open>routingTable.NearestPeers\<close>; \<open>from\<close> is the identity of the requesting peer, taken
  from the call's context.
\<close>

definition FindPeers ::
  "(peer_id \<Rightarrow> string) \<Rightarrow> (string \<Rightarrow> 'k) \<Rightarrow> ('k \<Rightarrow> int \<Rightarrow> peer_id list) \<Rightarrow> (peer_id \<Rightarrow> AddrInfo)
   \<Rightarrow> peer_id \<Rightarrow> FindPeersReq \<Rightarrow> failure + string list" where
  "FindPeers idString convertKey nearestPeers peerInfo from req =
     (let req1 = (if Count req > 16 then req\<lparr>Count := 16\<rparr> else req);
          req2 = (if Key req1 = '''' then req1\<lparr>Key := idString from\<rparr> else req1);
          closer = nearestPeers (convertKey (Key req2)) (Count req2)
      in FindPeers_filter idString peerInfo from closer [])"

section \<open>The server\<close>

text \<open>
  The dial queue (\<open>dialQueue\<close>, whose file is not among the sources) is represented by
  the calls the server makes on it, in order.

  Every call of \<open>watch\<close> makes one channel, so a call and its channel are named by the
  same number: the position of the call in \<open>watches\<close>. A call of \<open>watch\<close> is in one of
  four places: before its first critical section (\<open>Registering\<close>), in its \<open>select\<close>
  (\<open>Selecting\<close>), in the timer case before the second critical section (\<open>TimerFired\<close>),
  or returned. \<open>sending\<close> is set while the goroutine of \<open>runJoinWatcher\<close> is in its send
  \<open>errCh <- nil\<close> on an unbuffered channel: it holds the channel and the peer of the event,
  and \<open>joinWatchersLock\<close> is held for as long as it is set. The other critical sections
  do not block inside, so each is one step.
\<close>

type_synonym error = string

datatype dq_call = QAdd AddrInfo nat | QDel peer_id | QClose

datatype watch_state = Registering | Selecting | TimerFired | Returned "error option"

text \<open>
  What \<open>Server.Close\<close> closes: the host, the dial queue, the channel \<open>closeCh\<close>. The
  field \<open>closing\<close> of the server lists what has been closed so far, in the order of the
  closing.
\<close>

datatype close_step = HostClose | DialQueueClose | CloseChClose

record Peer =
  Info :: AddrInfo

record Server =
  MaxPeers :: "64 word"
  hostID :: peer_id
  closing :: "close_step list"
  peers :: "(peer_id \<times> Peer) list"
  dialQueue :: "dq_call list"
  joinWatchers :: "peer_id \<rightharpoonup> nat"
  watches :: "(peer_id \<times> watch_state) list"
  sending :: "(nat \<times> peer_id) option"

text \<open>The server as \<open>NewServer\<close> builds it: nothing is closed.\<close>

definition NewServer :: "64 word \<Rightarrow> peer_id \<Rightarrow> Server" where
  "NewServer maxPeers hid =
     \<lparr>MaxPeers = maxPeers, hostID = hid, closing = [], peers = [],
      dialQueue = [], joinWatchers = Map.empty, watches = [], sending = None\<rparr>"

definition numPeers :: "Server \<Rightarrow> 64 word" where
  "numPeers s = of_nat (length (peers s))"


definition delPeer :: "Server \<Rightarrow> peer_id \<Rightarrow> Server" where
  "delPeer s i = s\<lparr>peers := AList.delete i (peers s)\<rparr>"

subsection \<open>Join and the join watcher\<close>

text \<open>
  \<open>StringToAddrInfo\<close> and the same two parsing steps in \<open>JoinAddr\<close>. The parsers are
  those of the multiaddr and libp2p libraries: \<open>newMultiaddr\<close> is
  \<open>multiaddr.NewMultiaddr\<close> and \<open>addrInfoFromP2pAddr\<close> is \<open>peer.AddrInfoFromP2pAddr\<close>.
\<close>

definition StringToAddrInfo ::
  "(string \<Rightarrow> error + multiaddr) \<Rightarrow> (multiaddr \<Rightarrow> error + AddrInfo) \<Rightarrow> string \<Rightarrow> error + AddrInfo" where
  "StringToAddrInfo newMultiaddr addrInfoFromP2pAddr addr =
     (case newMultiaddr addr of
        Inl err \<Rightarrow> Inl err
      | Inr addr0 \<Rightarrow>
          (case addrInfoFromP2pAddr addr0 of
             Inl err \<Rightarrow> Inl err
           | Inr addr1 \<Rightarrow> Inr addr1))"

text \<open>
  A call of \<open>Join\<close> has returned (\<open>Done\<close>, with its error or \<open>nil\<close>) or goes on as the
  call of \<open>watch\<close> with the given number.
\<close>

datatype call = Done "error option" | Watching nat

text \<open>\<open>watch\<close> up to the making of its channel.\<close>

definition watch :: "Server \<Rightarrow> peer_id \<Rightarrow> int \<Rightarrow> Server \<times> call" where
  "watch s peerID dur =
     (s\<lparr>watches := watches s @ [(peerID, Registering)]\<rparr>, Watching (length (watches s)))"

definition Join :: "Server \<Rightarrow> AddrInfo \<Rightarrow> int \<Rightarrow> Server \<times> call" where
  "Join s addr timeout =
     (let s1 = s\<lparr>dialQueue := dialQueue s @ [QAdd addr 1]\<rparr>
      in if timeout = 0 then (s1, Done None) else watch s1 (ID addr) timeout)"

definition JoinAddr ::
  "(string \<Rightarrow> error + multiaddr) \<Rightarrow> (multiaddr \<Rightarrow> error + AddrInfo) \<Rightarrow> Server \<Rightarrow> string \<Rightarrow> int
   \<Rightarrow> Server \<times> call" where
  "JoinAddr newMultiaddr addrInfoFromP2pAddr s addr timeout =
     (case newMultiaddr addr of
        Inl err \<Rightarrow> (s, Done (Some err))
      | Inr addr0 \<Rightarrow>
          (case addrInfoFromP2pAddr addr0 of
             Inl err \<Rightarrow> (s, Done (Some err))
           | Inr addr1 \<Rightarrow> Join s addr1 timeout))"

text \<open>
  The steps of the call of \<open>watch\<close> number \<open>n\<close>. A step that cannot be taken in the
  state (the call is elsewhere, the lock is held, nobody sends) is \<open>None\<close>.

  \<open>watch_register\<close>: the first critical section stores the channel under the peer.
\<close>

definition watch_register :: "Server \<Rightarrow> nat \<Rightarrow> Server option" where
  "watch_register s n =
     (if n < length (watches s) \<and> snd (watches s ! n) = Registering \<and> sending s = None
      then Some (s\<lparr>joinWatchers := (joinWatchers s)(fst (watches s ! n) \<mapsto> n),
                   watches := (watches s)[n := (fst (watches s ! n), Selecting)]\<rparr>)
      else None)"

text \<open>\<open>watch_timer\<close>: \<open>time.After(dur)\<close> fires and the \<open>select\<close> takes that case.\<close>

definition watch_timer :: "Server \<Rightarrow> nat \<Rightarrow> Server option" where
  "watch_timer s n =
     (if n < length (watches s) \<and> snd (watches s ! n) = Selecting
      then Some (s\<lparr>watches := (watches s)[n := (fst (watches s ! n), TimerFired)]\<rparr>)
      else None)"

text \<open>
  \<open>watch_remove\<close>: the critical section of the timer case deletes the entry of the peer,
  and \<open>watch\<close> returns the timeout error.
\<close>

definition watch_remove :: "Server \<Rightarrow> nat \<Rightarrow> Server option" where
  "watch_remove s n =
     (if n < length (watches s) \<and> snd (watches s ! n) = TimerFired \<and> sending s = None
      then Some (s\<lparr>joinWatchers := (joinWatchers s)(fst (watches s ! n) := None),
                   watches := (watches s)[n := (fst (watches s ! n),
                     Returned (Some (''timeout '' @ hostID s @ '' '' @ fst (watches s ! n))))]\<rparr>)
      else None)"

text \<open>
  \<open>watch_receive\<close>: the case \<open>err := <-ch\<close> of the \<open>select\<close> meets the send of the join
  watcher. \<open>watch\<close> returns the value sent, which is \<open>nil\<close>; the join watcher, still
  holding the lock, deletes the entry of the event's peer and unlocks.
\<close>

definition watch_receive :: "Server \<Rightarrow> nat \<Rightarrow> Server option" where
  "watch_receive s n =
     (case sending s of
        None \<Rightarrow> None
      | Some (errCh, peerID) \<Rightarrow>
          (if errCh = n \<and> n < length (watches s) \<and> snd (watches s ! n) = Selecting
           then Some (s\<lparr>watches := (watches s)[n := (fst (watches s ! n), Returned None)],
                        joinWatchers := (joinWatchers s)(peerID := None),
                        sending := None\<rparr>)
           else None))"

text \<open>
  \<open>joinWatcher_event\<close>: the goroutine of \<open>runJoinWatcher\<close> takes an event from its
  subscription. For the three kinds it listens to it locks and looks the peer up; when
  there is a watcher it starts the send \<open>errCh <- nil\<close>. It takes no event while it is
  in a send.
\<close>

definition joinWatcher_event :: "Server \<Rightarrow> PeerEvent \<Rightarrow> Server option" where
  "joinWatcher_event s evnt =
     (if sending s \<noteq> None then None
      else if Type evnt \<noteq> PeerEventConnected \<and> Type evnt \<noteq> PeerEventConnectedFailed
              \<and> Type evnt \<noteq> PeerEventDialConnectedNode
      then Some s
      else
        (case joinWatchers s (PeerID evnt) of
           Some errCh \<Rightarrow> Some (s\<lparr>sending := Some (errCh, PeerID evnt)\<rparr>)
         | None \<Rightarrow> Some s))"

text \<open>
  A schedule is a list of steps of the goroutines. A step that cannot be taken leaves
  the state as it is: the goroutine stays where it is blocked.
\<close>

datatype step = CallJoin AddrInfo int | Register nat | Timer nat | Remove nat | Receive nat
  | Event PeerEvent

fun take_step :: "Server \<Rightarrow> step \<Rightarrow> Server option" where
  "take_step s (CallJoin addr timeout) = Some (fst (Join s addr timeout))"
| "take_step s (Register n) = watch_register s n"
| "take_step s (Timer n) = watch_timer s n"
| "take_step s (Remove n) = watch_remove s n"
| "take_step s (Receive n) = watch_receive s n"
| "take_step s (Event evnt) = joinWatcher_event s evnt"

definition exec :: "Server \<Rightarrow> step \<Rightarrow> Server" where
  "exec s a = (case take_step s a of None \<Rightarrow> s | Some s' \<Rightarrow> s')"

definition run :: "Server \<Rightarrow> step list \<Rightarrow> Server" where
  "run s sched = foldl exec s sched"

subsection \<open>Close\<close>





subsection \<open>The dial loop\<close>

text \<open>
  The handler \<open>runDial\<close> registers with \<open>SubscribeFn\<close>: it returns early for every kind
  of event but three, and otherwise offers a value on \<open>notifyCh\<close> (the result \<open>True\<close>).
\<close>

definition runDial_notify :: "PeerEvent \<Rightarrow> bool" where
  "runDial_notify evnt =
     (if Type evnt \<noteq> PeerEventConnected \<and> Type evnt \<noteq> PeerEventConnectedFailed
         \<and> Type evnt \<noteq> PeerEventDisconnected
      then False else True)"

text \<open>
  The budget of one round. \<open>MaxPeers\<close> is a \<open>uint64\<close> and the conversion
  \<open>int64(s.config.MaxPeers)\<close> keeps its 64 bits, so the subtraction is that of 64-bit
  words and the comparison with 0 is signed. \<open>numPending\<close> is the \<open>int64\<close> that
  \<open>s.identity.numPending()\<close> returns (the identity service is not among the sources).
\<close>

definition dial_slots :: "Server \<Rightarrow> 64 word \<Rightarrow> 64 word" where
  "dial_slots s numPending =
     (let slots = MaxPeers s - (numPeers s + numPending)
      in if slots <s 0 then 0 else slots)"

text \<open>
  What the loop does to the outside: it emits an event or calls \<open>host.Connect\<close> (whose
  error, if any, is only logged). The transport is libp2p's: \<open>isConnected h i\<close> is
  \<open>s.isConnected\<close> in the transport state \<open>h\<close>, and \<open>connect\<close> is \<open>host.Connect\<close>, which
  gives the new transport state and the error.
\<close>

datatype dial_effect = Emit PeerEvent | ConnectCall AddrInfo "error option"

definition dial_task ::
  "('h \<Rightarrow> peer_id \<Rightarrow> bool) \<Rightarrow> ('h \<Rightarrow> AddrInfo \<Rightarrow> 'h \<times> error option) \<Rightarrow> 'h \<Rightarrow> AddrInfo
   \<Rightarrow> 'h \<times> dial_effect" where
  "dial_task isConnected connect h tt =
     (if isConnected h (ID tt)
      then (h, Emit \<lparr>PeerID = ID tt, Type = PeerEventDialConnectedNode, Desc = []\<rparr>)
      else (case connect h tt of (h', err) \<Rightarrow> (h', ConnectCall tt err)))"

text \<open>
  Where the loop is when it stops running: it has returned, it waits in its \<open>select\<close>,
  or it waits in \<open>dialQueue.pop\<close>.
\<close>

datatype dial_exit = Return | AtSelect | InPop

text \<open>
  The inner \<open>for\<close> loop with \<open>n\<close> iterations left. \<open>pops\<close> are the results of the
  coming calls of \<open>dialQueue.pop\<close>, in order: a task, or \<open>None\<close> for the \<open>nil\<close> of a
  closed queue; when the list is used up the next \<open>pop\<close> does not return. The results
  not used are handed back.
\<close>

fun runDial_for ::
  "('h \<Rightarrow> peer_id \<Rightarrow> bool) \<Rightarrow> ('h \<Rightarrow> AddrInfo \<Rightarrow> 'h \<times> error option) \<Rightarrow> 'h \<Rightarrow> nat
   \<Rightarrow> AddrInfo option list \<Rightarrow> 'h \<times> dial_effect list \<times> AddrInfo option list \<times> dial_exit" where
  "runDial_for isConnected connect h 0 pops = (h, [], pops, AtSelect)"
| "runDial_for isConnected connect h (Suc n) [] = (h, [], [], InPop)"
| "runDial_for isConnected connect h (Suc n) (None # pops) = (h, [], pops, Return)"
| "runDial_for isConnected connect h (Suc n) (Some tt # pops) =
     (case dial_task isConnected connect h tt of
        (h1, eff) \<Rightarrow>
          (case runDial_for isConnected connect h1 n pops of
             (h2, effs, rest, ex) \<Rightarrow> (h2, eff # effs, rest, ex)))"

text \<open>
  What ends a wait in the \<open>select\<close>: a value on \<open>notifyCh\<close>, with the transport state,
  the server and the pending count the next round finds, or the closing of \<open>closeCh\<close>.
\<close>

datatype 'h wake = NotifyCh 'h Server "64 word" | CloseCh

text \<open>
  \<open>runDial\<close>: each round computes the budget, runs the inner loop and then waits in the
  \<open>select\<close>. With no wake left the loop stays in the \<open>select\<close>.
\<close>

fun runDial ::
  "('h \<Rightarrow> peer_id \<Rightarrow> bool) \<Rightarrow> ('h \<Rightarrow> AddrInfo \<Rightarrow> 'h \<times> error option) \<Rightarrow> 'h wake list \<Rightarrow> 'h \<Rightarrow> Server
   \<Rightarrow> 64 word \<Rightarrow> AddrInfo option list \<Rightarrow> 'h \<times> dial_effect list \<times> AddrInfo option list \<times> dial_exit" where
  "runDial isConnected connect [] h s numPending pops =
     runDial_for isConnected connect h (nat (sint (dial_slots s numPending))) pops"
| "runDial isConnected connect (CloseCh # wakes) h s numPending pops =
     (case runDial_for isConnected connect h (nat (sint (dial_slots s numPending))) pops of
        (h1, effs, rest, ex) \<Rightarrow> (h1, effs, rest, if ex = AtSelect then Return else ex))"
| "runDial isConnected connect (NotifyCh h' s' numPending' # wakes) h s numPending pops =
     (case runDial_for isConnected connect h (nat (sint (dial_slots s numPending))) pops of
        (h1, effs, rest, ex) \<Rightarrow>
          (if ex = AtSelect then
             (case runDial isConnected connect wakes h' s' numPending' rest of
                (h2, effs2, rest2, ex2) \<Rightarrow> (h2, effs @ effs2, rest2, ex2))
           else (h1, effs, rest, ex)))"

text \<open>
  The tasks one run of the inner loop handles, by the claim's words: the tasks popped
  while the budget lasts and the queue is open, each handled by \<open>dial_task\<close> in turn.
\<close>

fun dial_tasks ::
  "('h \<Rightarrow> peer_id \<Rightarrow> bool) \<Rightarrow> ('h \<Rightarrow> AddrInfo \<Rightarrow> 'h \<times> error option) \<Rightarrow> 'h \<Rightarrow> AddrInfo list
   \<Rightarrow> 'h \<times> dial_effect list" where
  "dial_tasks isConnected connect h [] = (h, [])"
| "dial_tasks isConnected connect h (tt # tts) =
     (case dial_task isConnected connect h tt of
        (h1, eff) \<Rightarrow>
          (case dial_tasks isConnected connect h1 tts of (h2, effs) \<Rightarrow> (h2, eff # effs)))"

definition popped :: "nat \<Rightarrow> AddrInfo option list \<Rightarrow> AddrInfo list" where
  "popped n pops = map the (takeWhile (\<lambda>x. x \<noteq> None) (take n pops))"

subsection \<open>Subscriptions\<close>

text \<open>
  A Go channel: the values waiting to be received and whether it has been closed. A
  receive gives a value, or the zero value of a closed and empty channel, or blocks.
\<close>

record 'a chan =
  queue :: "'a list"
  is_closed :: bool

datatype 'a recv = Value 'a | Zero | Blocks

definition chan_recv :: "'a chan \<Rightarrow> 'a recv \<times> 'a chan" where
  "chan_recv c =
     (case queue c of
        x # xs \<Rightarrow> (Value x, c\<lparr>queue := xs\<rparr>)
      | [] \<Rightarrow> (if is_closed c then (Zero, c) else (Blocks, c)))"

text \<open>
  \<open>Subscription\<close>: \<open>sub\<close> is the output channel of the subscription of libp2p's event
  bus (closed by its \<open>Close\<close>), \<open>ch\<close> the unbuffered channel of the handle, on which
  at most the one value that \<open>run\<close> is sending waits.
\<close>

record Subscription =
  sub :: "PeerEvent chan"
  ch :: "PeerEvent chan"

text \<open>The handle \<open>Server.Subscribe\<close> returns when the bus accepts the subscription.\<close>

definition Subscribe :: Subscription where
  "Subscribe = \<lparr>sub = \<lparr>queue = [], is_closed = False\<rparr>, ch = \<lparr>queue = [], is_closed = False\<rparr>\<rparr>"

text \<open>The bus delivers an emitted event to a subscription that is not closed.\<close>

definition bus_emit :: "Subscription \<Rightarrow> PeerEvent \<Rightarrow> Subscription" where
  "bus_emit s evnt =
     (if is_closed (sub s) then s else s\<lparr>sub := (sub s)\<lparr>queue := queue (sub s) @ [evnt]\<rparr>\<rparr>)"

text \<open>
  One turn of the loop of \<open>Subscription.run\<close>. While its last send waits, or while
  there is nothing to receive, it is blocked. The zero value of a closed \<open>sub.Out()\<close>
  is a nil interface, on which the type assertion \<open>evnt.(PeerEvent)\<close> panics.
\<close>

definition Subscription_run :: "Subscription \<Rightarrow> failure + Subscription" where
  "Subscription_run s =
     (if queue (ch s) \<noteq> [] then Inr s
      else
        (case chan_recv (sub s) of
           (Value obj, c) \<Rightarrow> Inr (s\<lparr>sub := c, ch := (ch s)\<lparr>queue := [obj]\<rparr>\<rparr>)
         | (Zero, c) \<Rightarrow> Inl (Panic ''interface conversion: interface {} is nil, not network.PeerEvent'')
         | (Blocks, c) \<Rightarrow> Inr s))"

definition Get :: "Subscription \<Rightarrow> PeerEvent recv \<times> Subscription" where
  "Get s = (case chan_recv (ch s) of (obj, c) \<Rightarrow> (obj, s\<lparr>ch := c\<rparr>))"

definition Subscription_Close :: "Subscription \<Rightarrow> Subscription" where
  "Subscription_Close s = s\<lparr>sub := (sub s)\<lparr>is_closed := True\<rparr>\<rparr>"

text \<open>
  What can happen to a handle, in any order. A panic of the goroutine \<open>run\<close> is not
  recovered anywhere, so it ends the process: nothing happens after it.
\<close>

datatype sub_op = BusEmit PeerEvent | RunTurn | CallGet | CallClose

fun sub_step :: "Subscription \<Rightarrow> sub_op \<Rightarrow> failure + Subscription" where
  "sub_step s (BusEmit evnt) = Inr (bus_emit s evnt)"
| "sub_step s RunTurn = Subscription_run s"
| "sub_step s CallGet = Inr (snd (Get s))"
| "sub_step s CallClose = Inr (Subscription_Close s)"

fun sub_steps :: "Subscription \<Rightarrow> sub_op list \<Rightarrow> failure + Subscription" where
  "sub_steps s [] = Inr s"
| "sub_steps s (x # xs) =
     (case sub_step s x of
        Inl p \<Rightarrow> Inl p
      | Inr s' \<Rightarrow> sub_steps s' xs)"

section \<open>The discovery service\<close>

text \<open>
  \<open>discovery\<close>: the routing table is the kbucket library's, of some type \<open>'rt\<close>;
  \<open>disc_peers\<close> is the field \<open>peers\<close>; \<open>peerstore\<close> lists the addresses \<open>call\<close> adds to
  the peerstore of the host.
\<close>

record 'rt discovery =
  routingTable :: 'rt
  disc_peers :: "peer_id list"
  peerstore :: "(peer_id \<times> multiaddr) list"

text \<open>
  The event case of the goroutine of \<open>syncConnectedPeers\<close>. \<open>tryAddPeer\<close> is
  \<open>routingTable.TryAddPeer(peerID, false, false)\<close>: an error, or whether the peer was
  added and the new table.
\<close>

definition syncConnectedPeers_event ::
  "('rt \<Rightarrow> peer_id \<Rightarrow> error + bool \<times> 'rt) \<Rightarrow> 'rt discovery \<Rightarrow> PeerEvent \<Rightarrow> failure + 'rt discovery" where
  "syncConnectedPeers_event tryAddPeer d evnt =
     (let peerID = PeerID evnt
      in case tryAddPeer (routingTable d) peerID of
           Inl err \<Rightarrow> Inl (Panic err)
         | Inr (_, rt) \<Rightarrow> Inr (d\<lparr>routingTable := rt, disc_peers := disc_peers d @ [peerID]\<rparr>))"

text \<open>The loop of that goroutine over the events it receives, until one panics.\<close>

fun syncConnectedPeers ::
  "('rt \<Rightarrow> peer_id \<Rightarrow> error + bool \<times> 'rt) \<Rightarrow> 'rt discovery \<Rightarrow> PeerEvent list
   \<Rightarrow> failure + 'rt discovery" where
  "syncConnectedPeers tryAddPeer d [] = Inr d"
| "syncConnectedPeers tryAddPeer d (evnt # evnts) =
     (case syncConnectedPeers_event tryAddPeer d evnt of
        Inl p \<Rightarrow> Inl p
      | Inr d' \<Rightarrow> syncConnectedPeers tryAddPeer d' evnts)"

text \<open>
  What the remote side of a lookup does: opening the stream fails (\<open>StartStream\<close>
  panics), the \<open>FindPeers\<close> call fails, or it answers with address strings.
\<close>

datatype reply = StreamFailed error | CallFailed error | Nodes "string list"

fun findPeersCall_nodes ::
  "(string \<Rightarrow> error + AddrInfo) \<Rightarrow> string list \<Rightarrow> AddrInfo list \<Rightarrow> error + AddrInfo list" where
  "findPeersCall_nodes parse [] addrInfo = Inr addrInfo"
| "findPeersCall_nodes parse (node # nodes) addrInfo =
     (case parse node of
        Inl err \<Rightarrow> Inl err
      | Inr info \<Rightarrow> findPeersCall_nodes parse nodes (addrInfo @ [info]))"

definition findPeersCall ::
  "(string \<Rightarrow> error + multiaddr) \<Rightarrow> (multiaddr \<Rightarrow> error + AddrInfo) \<Rightarrow> (peer_id \<Rightarrow> reply) \<Rightarrow> peer_id
   \<Rightarrow> failure + AddrInfo list" where
  "findPeersCall newMultiaddr addrInfoFromP2pAddr remote peerID =
     (case remote peerID of
        StreamFailed err \<Rightarrow> Inl (Panic err)
      | CallFailed err \<Rightarrow> Inl (Error err)
      | Nodes nodes \<Rightarrow>
          (case findPeersCall_nodes (StringToAddrInfo newMultiaddr addrInfoFromP2pAddr) nodes [] of
             Inl err \<Rightarrow> Inl (Error err)
           | Inr addrInfo \<Rightarrow> Inr addrInfo))"

text \<open>
  The loop of \<open>call\<close>: the first address of each node goes to the peerstore (an index
  out of range panics) and the node to the routing table; an error of the table ends
  the loop with what was done so far.
\<close>

fun call_nodes ::
  "('rt \<Rightarrow> peer_id \<Rightarrow> error + bool \<times> 'rt) \<Rightarrow> 'rt discovery \<Rightarrow> AddrInfo list
   \<Rightarrow> 'rt discovery \<times> failure option" where
  "call_nodes tryAddPeer d [] = (d, None)"
| "call_nodes tryAddPeer d (node # nodes) =
     (case Addrs node of
        [] \<Rightarrow> (d, Some (Panic ''index out of range''))
      | a # _ \<Rightarrow>
          (let d1 = d\<lparr>peerstore := peerstore d @ [(ID node, a)]\<rparr>
           in case tryAddPeer (routingTable d1) (ID node) of
                Inl err \<Rightarrow> (d1, Some (Error err))
              | Inr (_, rt) \<Rightarrow> call_nodes tryAddPeer (d1\<lparr>routingTable := rt\<rparr>) nodes))"

definition call ::
  "(string \<Rightarrow> error + multiaddr) \<Rightarrow> (multiaddr \<Rightarrow> error + AddrInfo) \<Rightarrow> (peer_id \<Rightarrow> reply)
   \<Rightarrow> ('rt \<Rightarrow> peer_id \<Rightarrow> error + bool \<times> 'rt) \<Rightarrow> 'rt discovery \<Rightarrow> peer_id
   \<Rightarrow> 'rt discovery \<times> failure option" where
  "call newMultiaddr addrInfoFromP2pAddr remote tryAddPeer d peerID =
     (case findPeersCall newMultiaddr addrInfoFromP2pAddr remote peerID of
        Inl err \<Rightarrow> (d, Some err)
      | Inr nodes \<Rightarrow> call_nodes tryAddPeer d nodes)"

text \<open>
  \<open>handleDiscovery\<close>: \<open>r\<close> is the random source behind \<open>rand.Intn\<close>, which gives an
  index below the length. An error of \<open>call\<close> becomes a panic.
\<close>

definition handleDiscovery ::
  "(string \<Rightarrow> error + multiaddr) \<Rightarrow> (multiaddr \<Rightarrow> error + AddrInfo) \<Rightarrow> (peer_id \<Rightarrow> reply)
   \<Rightarrow> ('rt \<Rightarrow> peer_id \<Rightarrow> error + bool \<times> 'rt) \<Rightarrow> 'rt discovery \<Rightarrow> nat
   \<Rightarrow> 'rt discovery \<times> failure option" where
  "handleDiscovery newMultiaddr addrInfoFromP2pAddr remote tryAddPeer d r =
     (if length (disc_peers d) > 0 then
        (let target = disc_peers d ! (r mod length (disc_peers d))
         in case call newMultiaddr addrInfoFromP2pAddr remote tryAddPeer d target of
              (d', Some (Error err)) \<Rightarrow> (d', Some (Panic err))
            | (d', Some (Panic msg)) \<Rightarrow> (d', Some (Panic msg))
            | (d', None) \<Rightarrow> (d', None))
      else (d, None))"

section \<open>Predicates used in the proofs\<close>

text \<open>
  The state in which the call of \<open>watch\<close> number 0, for the peer \<open>QmB\<close>, has taken its
  timer case while the join watcher is in its send on channel 0 and holds the lock.
\<close>

definition stuck :: "Server \<Rightarrow> bool" where
  "stuck s \<longleftrightarrow> sending s = Some (0, ''QmB'') \<and> joinWatchers s ''QmB'' = Some 0 \<and>
     0 < length (watches s) \<and> watches s ! 0 = (''QmB'', TimerFired)"

text \<open>Every call of \<open>watch\<close> that has returned gave \<open>nil\<close> or its timeout error.\<close>

definition nil_or_timeout :: "Server \<Rightarrow> bool" where
  "nil_or_timeout s \<longleftrightarrow>
     (\<forall>n p v. n < length (watches s) \<longrightarrow> watches s ! n = (p, Returned v) \<longrightarrow>
        v = None \<or> v = Some (''timeout '' @ hostID s @ '' '' @ p))"

section \<open>Properties of the discovery responder\<close>

lemma FindPeers_filter_all:
  "FindPeers_filter idString peerInfo from closer acc =
     (if list_all (\<lambda>i. length (Addrs (peerInfo i)) = 1) (filter (\<lambda>i. i \<noteq> from) closer)
      then Inr (acc @ map (\<lambda>i. Addrs (peerInfo i) ! 0 @ ''/p2p/'' @ idString (ID (peerInfo i)))
                        (filter (\<lambda>i. i \<noteq> from) closer))
      else Inl (Panic ''Not supported''))"
  by (induction closer arbitrary: acc) (simp_all add: AddrInfoToString_def)

lemma FindPeers_filter_eq:
  "FindPeers_filter idString peerInfo from closer acc =
     (if \<forall>i \<in> set (filter (\<lambda>i. i \<noteq> from) closer). length (Addrs (peerInfo i)) = 1
      then Inr (acc @ map (\<lambda>i. Addrs (peerInfo i) ! 0 @ ''/p2p/'' @ idString (ID (peerInfo i)))
                        (filter (\<lambda>i. i \<noteq> from) closer))
      else Inl (Panic ''Not supported''))"
  unfolding FindPeers_filter_all list_all_iff ..

text \<open>
  Claim C5, as amended. For every request, \<open>FindPeers\<close> asks the routing table for the
  peers nearest to the request's key, or to the requester's identity string when the key
  is empty, with the count clamped to at most 16 (it never looks at what the table holds
  for a larger count). When each of these peers other than the requester has exactly one
  address, it answers with the address strings of those peers, the requester left out, in
  the table's order; otherwise it panics.
\<close>

theorem FindPeers_clamps_defaults_excludes:
  "FindPeers idString convertKey nearestPeers peerInfo from req =
     (let nearest = filter (\<lambda>i. i \<noteq> from)
            (nearestPeers (convertKey (if Key req = '''' then idString from else Key req))
               (min (Count req) 16))
      in if \<forall>i \<in> set nearest. length (Addrs (peerInfo i)) = 1
         then Inr (map (\<lambda>i. Addrs (peerInfo i) ! 0 @ ''/p2p/'' @ idString (ID (peerInfo i))) nearest)
         else Inl (Panic ''Not supported'')) \<and>
   ((\<forall>k c. c \<le> 16 \<longrightarrow> nearestPeers k c = nearestPeers' k c) \<longrightarrow>
      FindPeers idString convertKey nearestPeers peerInfo from req =
      FindPeers idString convertKey nearestPeers' peerInfo from req)"
proof -
  have m: "(if Count req > 16 then 16 else Count req) = min (Count req) 16" by simp
  have eq: "\<And>np. FindPeers idString convertKey np peerInfo from req =
     (let nearest = filter (\<lambda>i. i \<noteq> from)
            (np (convertKey (if Key req = '''' then idString from else Key req))
               (min (Count req) 16))
      in if \<forall>i \<in> set nearest. length (Addrs (peerInfo i)) = 1
         then Inr (map (\<lambda>i. Addrs (peerInfo i) ! 0 @ ''/p2p/'' @ idString (ID (peerInfo i))) nearest)
         else Inl (Panic ''Not supported''))"
    using m by (auto simp add: FindPeers_def Let_def FindPeers_filter_eq)
  have le: "min (Count req) 16 \<le> 16" by simp
  show ?thesis
  proof (intro conjI impI)
    show "FindPeers idString convertKey nearestPeers peerInfo from req =
     (let nearest = filter (\<lambda>i. i \<noteq> from)
            (nearestPeers (convertKey (if Key req = '''' then idString from else Key req))
               (min (Count req) 16))
      in if \<forall>i \<in> set nearest. length (Addrs (peerInfo i)) = 1
         then Inr (map (\<lambda>i. Addrs (peerInfo i) ! 0 @ ''/p2p/'' @ idString (ID (peerInfo i))) nearest)
         else Inl (Panic ''Not supported''))"
      by (rule eq)
  next
    assume a: "\<forall>k c. c \<le> 16 \<longrightarrow> nearestPeers k c = nearestPeers' k c"
    have "nearestPeers (convertKey (if Key req = '''' then idString from else Key req))
            (min (Count req) 16) =
          nearestPeers' (convertKey (if Key req = '''' then idString from else Key req))
            (min (Count req) 16)"
      using a le by blast
    then show "FindPeers idString convertKey nearestPeers peerInfo from req =
      FindPeers idString convertKey nearestPeers' peerInfo from req"
      unfolding eq [of nearestPeers] eq [of nearestPeers'] by simp
  qed
qed

text \<open>
  Claim C5 as amended, at a request with no key and a count of 20, from the peer \<open>QmB\<close>:
  the answer holds the two other peers of the table.
\<close>

theorem FindPeers_clamps_defaults_excludes_witness:
  "FindPeers (\<lambda>i. i) (\<lambda>k. k) (\<lambda>k n. take (nat n) [''QmA'', ''QmB'', ''QmC''])
     (\<lambda>i. \<lparr>ID = i, Addrs = [''/ip4/127.0.0.1/tcp/1478'']\<rparr>) ''QmB'' \<lparr>Key = '''', Count = 20\<rparr>
   = Inr [''/ip4/127.0.0.1/tcp/1478/p2p/QmA'', ''/ip4/127.0.0.1/tcp/1478/p2p/QmC'']"
  using FindPeers_clamps_defaults_excludes [where req = "\<lparr>Key = '''', Count = 20\<rparr>"
      and idString = "\<lambda>i. i" and ?from = "''QmB''"
      and nearestPeers = "\<lambda>k n. take (nat n) [''QmA'', ''QmB'', ''QmC'']" and convertKey = "\<lambda>k. k"
      and peerInfo = "\<lambda>i. \<lparr>ID = i, Addrs = [''/ip4/127.0.0.1/tcp/1478'']\<rparr>", THEN conjunct1]
  by (simp add: Let_def)

text \<open>
  Claim C5 as stated fails: the same request gets no answer when the peerstore holds two
  addresses for the peer \<open>QmA\<close>; the responder panics.
\<close>

theorem FindPeers_panics_on_second_address:
  "FindPeers (\<lambda>i. i) (\<lambda>k. k) (\<lambda>k n. take (nat n) [''QmA'', ''QmB'', ''QmC''])
     (\<lambda>i. \<lparr>ID = i, Addrs = (if i = ''QmA''
                 then [''/ip4/10.0.0.1/tcp/1478'', ''/ip4/192.168.0.1/tcp/1478'']
                 else [''/ip4/127.0.0.1/tcp/1478''])\<rparr>) ''QmB'' \<lparr>Key = '''', Count = 20\<rparr>
   = Inl (Panic ''Not supported'')"
  by (simp add: FindPeers_def AddrInfoToString_def)

text \<open>
  Claim C10. \<open>AddrInfoToString\<close> panics exactly when the \<open>AddrInfo\<close> does not hold
  exactly one address; so \<open>FindPeers\<close> panics, rather than returning an error, as soon
  as one of the nearest peers other than the requester has no address or several.
\<close>

theorem AddrInfoToString_one_address_or_panic:
  "(AddrInfoToString idString a = Inl (Panic ''Not supported'') \<longleftrightarrow> length (Addrs a) \<noteq> 1) \<and>
   ((\<exists>s. AddrInfoToString idString a = Inr s) \<longleftrightarrow> length (Addrs a) = 1) \<and>
   ((\<exists>i \<in> set (nearestPeers (convertKey (if Key req = '''' then idString from else Key req))
                  (if Count req > 16 then 16 else Count req)).
        i \<noteq> from \<and> length (Addrs (peerInfo i)) \<noteq> 1)
     \<longrightarrow> FindPeers idString convertKey nearestPeers peerInfo from req = Inl (Panic ''Not supported''))"
  by (auto simp add: AddrInfoToString_def FindPeers_def Let_def FindPeers_filter_eq)

theorem AddrInfoToString_one_address_or_panic_witness:
  "FindPeers (\<lambda>i. i) (\<lambda>k. k) (\<lambda>k n. take (nat n) [''QmA'', ''QmB'', ''QmC''])
     (\<lambda>i. \<lparr>ID = i, Addrs = (if i = ''QmC'' then [] else [''/ip4/127.0.0.1/tcp/1478''])\<rparr>) ''QmB''
     \<lparr>Key = ''QmA'', Count = 3\<rparr>
   = Inl (Panic ''Not supported'')"
  using AddrInfoToString_one_address_or_panic [of "\<lambda>i. i" _ "\<lambda>k n. take (nat n) [''QmA'', ''QmB'', ''QmC'']"
      "\<lambda>k. k" "\<lparr>Key = ''QmA'', Count = 3\<rparr>" "''QmB''"
      "\<lambda>i. \<lparr>ID = i, Addrs = (if i = ''QmC'' then [] else [''/ip4/127.0.0.1/tcp/1478''])\<rparr>"]
  by simp

section \<open>Properties of Join and the join watcher\<close>

text \<open>
  Claim C8. When the address string does not parse (either parsing step fails),
  \<open>JoinAddr\<close> returns the parse error at once and leaves the server as it was: nothing
  is added to the dial queue and no watcher is registered.
\<close>

theorem JoinAddr_malformed_fails_fast:
  assumes "StringToAddrInfo newMultiaddr addrInfoFromP2pAddr addr = Inl err"
  shows "JoinAddr newMultiaddr addrInfoFromP2pAddr s addr timeout = (s, Done (Some err)) \<and>
         dialQueue (fst (JoinAddr newMultiaddr addrInfoFromP2pAddr s addr timeout)) = dialQueue s \<and>
         joinWatchers (fst (JoinAddr newMultiaddr addrInfoFromP2pAddr s addr timeout)) = joinWatchers s \<and>
         watches (fst (JoinAddr newMultiaddr addrInfoFromP2pAddr s addr timeout)) = watches s"
  using assms
  by (auto simp add: StringToAddrInfo_def JoinAddr_def split: sum.splits)

text \<open>Claim C8 at an address without a leading slash, which the first parser refuses.\<close>

theorem JoinAddr_malformed_fails_fast_witness:
  "JoinAddr (\<lambda>a. if a = [] \<or> hd a \<noteq> CHR ''/'' then Inl ''invalid multiaddr'' else Inr a)
      (\<lambda>m. Inl ''invalid p2p multiaddr'') (NewServer 10 ''QmA'') ''127.0.0.1:1478'' 5
   = (NewServer 10 ''QmA'', Done (Some ''invalid multiaddr''))"
  using JoinAddr_malformed_fails_fast [of
      "\<lambda>a. if a = [] \<or> hd a \<noteq> CHR ''/'' then Inl ''invalid multiaddr'' else Inr a"
      "\<lambda>m. Inl ''invalid p2p multiaddr''" "''127.0.0.1:1478''" "''invalid multiaddr''"
      "NewServer 10 ''QmA''" 5]
  by (simp add: StringToAddrInfo_def)

lemmas step_defs = run_def exec_def Let_def Join_def watch_def watch_register_def watch_timer_def
  watch_remove_def watch_receive_def joinWatcher_event_def NewServer_def
  PeerEventConnected_def PeerEventConnectedFailed_def PeerEventDialConnectedNode_def

text \<open>
  Claim C2, at the input where the code departs from it. \<open>Join\<close> with a timeout of 5
  for the peer \<open>QmB\<close> registers its watcher; a \<open>PeerConnectedFailed\<close> event for \<open>QmB\<close>
  arrives before the deadline; \<open>Join\<close> returns \<open>nil\<close>, as it would for a connection
  that succeeded.
\<close>

theorem Join_returns_nil_on_connect_failure:
  "watches (run (NewServer 10 ''QmA'')
      [CallJoin \<lparr>ID = ''QmB'', Addrs = [''/ip4/127.0.0.1/tcp/1478'']\<rparr> 5,
       Register 0,
       Event \<lparr>PeerID = ''QmB'', Type = PeerEventConnectedFailed, Desc = ''dial failed''\<rparr>,
       Receive 0])
   = [(''QmB'', Returned None)]"
  by (simp add: step_defs)

text \<open>
  More generally no schedule makes a call of \<open>watch\<close> return anything but \<open>nil\<close> or its
  timeout error: a connect failure is never reported.
\<close>

lemma nil_or_timeout_exec: "nil_or_timeout s \<Longrightarrow> nil_or_timeout (exec s a)"
  unfolding nil_or_timeout_def
  by (cases a) (auto simp add: step_defs nth_append nth_list_update split: option.splits if_splits)

lemma nil_or_timeout_run: "nil_or_timeout s \<Longrightarrow> nil_or_timeout (run s sched)"
  unfolding run_def by (induction sched arbitrary: s) (simp_all add: nil_or_timeout_exec)

lemma Join_never_reports_connect_error:
  "nil_or_timeout (run (NewServer maxPeers hid) sched)"
  by (rule nil_or_timeout_run) (simp add: nil_or_timeout_def NewServer_def)

text \<open>
  When the critical section of the timer case is reached, the entry of the peer is
  deleted, and a call that has returned is not touched by any later step.
\<close>

lemma watch_remove_removes:
  "watch_remove s n = Some s' \<Longrightarrow>
   joinWatchers s' (fst (watches s ! n)) = None \<and>
   watches s' ! n =
     (fst (watches s ! n), Returned (Some (''timeout '' @ hostID s @ '' '' @ fst (watches s ! n))))"
  by (auto simp add: watch_remove_def split: if_splits)

lemma returned_stays_exec:
  "n < length (watches s) \<Longrightarrow> watches s ! n = (p, Returned v) \<Longrightarrow>
   n < length (watches (exec s a)) \<and> watches (exec s a) ! n = (p, Returned v)"
  by (cases a) (auto simp add: step_defs nth_append nth_list_update split: option.splits)

lemma returned_stays:
  "n < length (watches s) \<Longrightarrow> watches s ! n = (p, Returned v) \<Longrightarrow>
   n < length (watches (run s sched)) \<and> watches (run s sched) ! n = (p, Returned v)"
proof (induction sched arbitrary: s)
  case Nil
  then show ?case by (simp add: run_def)
next
  case (Cons a sched)
  have "run s (a # sched) = run (exec s a) sched" by (simp add: run_def)
  then show ?case using Cons.IH returned_stays_exec [OF Cons.prems] by simp
qed

lemma stuck_exec: "stuck s \<Longrightarrow> stuck (exec s a)"
  by (cases a) (auto simp add: stuck_def step_defs nth_append nth_list_update split: option.splits)

lemma stuck_run: "stuck s \<Longrightarrow> stuck (run s sched)"
  unfolding run_def by (induction sched arbitrary: s) (simp_all add: stuck_exec)

lemma stuck_start:
  "stuck (run (NewServer 10 ''QmA'')
      [CallJoin \<lparr>ID = ''QmB'', Addrs = [''/ip4/127.0.0.1/tcp/1478'']\<rparr> 5,
       Register 0, Timer 0,
       Event \<lparr>PeerID = ''QmB'', Type = PeerEventConnected, Desc = []\<rparr>])"
  by (simp add: stuck_def step_defs)

text \<open>
  Claim C7, at the schedule where the code departs from it. The deadline of the watch
  for \<open>QmB\<close> elapses and its \<open>select\<close> takes the timer case; before it locks, the join
  watcher handles a \<open>PeerConnected\<close> event for \<open>QmB\<close>, finds the entry and starts its
  send while holding the lock. From then on, whatever the goroutines do, the entry of
  \<open>QmB\<close> stays in the table and the call of \<open>watch\<close> stays in its timer case: it never
  deletes the entry and never returns.
\<close>

theorem timed_out_watch_blocks_with_its_entry:
  "\<forall>sched. joinWatchers (run (run (NewServer 10 ''QmA'')
      [CallJoin \<lparr>ID = ''QmB'', Addrs = [''/ip4/127.0.0.1/tcp/1478'']\<rparr> 5,
       Register 0, Timer 0,
       Event \<lparr>PeerID = ''QmB'', Type = PeerEventConnected, Desc = []\<rparr>]) sched) ''QmB'' = Some 0 \<and>
     watches (run (run (NewServer 10 ''QmA'')
      [CallJoin \<lparr>ID = ''QmB'', Addrs = [''/ip4/127.0.0.1/tcp/1478'']\<rparr> 5,
       Register 0, Timer 0,
       Event \<lparr>PeerID = ''QmB'', Type = PeerEventConnected, Desc = []\<rparr>]) sched) ! 0
       = (''QmB'', TimerFired)"
  using stuck_run [OF stuck_start] by (simp add: stuck_def)

section \<open>Properties of Close\<close>



section \<open>Properties of the dial loop\<close>

lemma sint_small: "unat (w :: 64 word) < 2 ^ 63 \<Longrightarrow> sint w = int (unat w)"
proof -
  assume a: "unat w < 2 ^ 63"
  have "int (unat w) < 2 ^ 63" using a by (metis of_nat_less_iff of_nat_numeral of_nat_power)
  then have b: "uint w < 2 ^ 63" by simp
  have c: "- (2 ^ 63) \<le> uint w" by (rule order_trans [of _ 0]) simp_all
  have "sint w = signed_take_bit 63 (uint w)" by (simp add: sint_uint)
  also have "\<dots> = uint w" by (rule signed_take_bit_int_eq_self [OF c b])
  finally show ?thesis by simp
qed

lemma sint_of_nat_small: "int n < 2 ^ 63 \<Longrightarrow> sint (of_nat n :: 64 word) = int n"
proof -
  assume a: "int n < 2 ^ 63"
  have lo: "- (2 ^ 63) \<le> int n" by (rule order_trans [of _ 0]) simp_all
  have "sint (of_nat n :: 64 word) = signed_take_bit 63 (int n)" by (simp add: signed_of_nat)
  also have "\<dots> = int n" by (rule signed_take_bit_int_eq_self [OF lo a])
  finally show ?thesis .
qed

lemma slots_exact:
  assumes "unat (MaxPeers s) < 2 ^ 63" and "0 \<le> sint numPending"
    and "int (length (peers s)) + sint numPending < 2 ^ 63"
  shows "sint (dial_slots s numPending) =
           max 0 (int (unat (MaxPeers s)) - (int (length (peers s)) + sint numPending))"
proof -
  let ?M = "int (unat (MaxPeers s))" and ?P = "int (length (peers s))" and ?Q = "sint numPending"
  have m: "sint (MaxPeers s) = ?M" using assms(1) by (rule sint_small)
  have "?P < 2 ^ 63" using assms(2,3) by linarith
  then have p: "sint (numPeers s) = ?P" unfolding numPeers_def by (rule sint_of_nat_small)
  have pq0: "0 \<le> ?P + ?Q" using assms(2) by simp
  have pos: "(0::int) \<le> 2 ^ 63" by simp
  have lo: "- (2 ^ 63) \<le> ?P + ?Q" using pq0 pos by linarith
  have "sint (numPeers s + numPending) = signed_take_bit 63 (?P + ?Q)"
    using p by (simp add: sint_word_add)
  also have "\<dots> = ?P + ?Q" by (rule signed_take_bit_int_eq_self [OF lo assms(3)])
  finally have q: "sint (numPeers s + numPending) = ?P + ?Q" .
  have mb: "?M < 2 ^ 63" using assms(1) by (metis of_nat_less_iff of_nat_numeral of_nat_power)
  have lo2: "- (2 ^ 63) \<le> ?M - (?P + ?Q)" using assms(3) by linarith
  have hi2: "?M - (?P + ?Q) < 2 ^ 63" using mb pq0 by linarith
  have "sint (MaxPeers s - (numPeers s + numPending)) = signed_take_bit 63 (?M - (?P + ?Q))"
    using m q by (simp add: sint_word_diff)
  also have "\<dots> = ?M - (?P + ?Q)" by (rule signed_take_bit_int_eq_self [OF lo2 hi2])
  finally have d: "sint (MaxPeers s - (numPeers s + numPending)) = ?M - (?P + ?Q)" .
  show ?thesis
    using d by (simp add: dial_slots_def Let_def word_sless_alt max_def)
qed

lemma slots_nonneg: "0 \<le> sint (dial_slots s numPending)"
  by (simp add: dial_slots_def Let_def word_sless_alt)

lemma popped_simps:
  "popped 0 pops = []" "popped (Suc n) [] = []" "popped (Suc n) (None # pops) = []"
  "popped (Suc n) (Some tt # pops) = tt # popped n pops"
  by (simp_all add: popped_def)

lemma runDial_for_tasks:
  "runDial_for isConnected connect h n pops =
     (fst (dial_tasks isConnected connect h (popped n pops)),
      snd (dial_tasks isConnected connect h (popped n pops)),
      fst (snd (snd (runDial_for isConnected connect h n pops))),
      if length (popped n pops) = n then AtSelect
      else if length (popped n pops) = length pops then InPop else Return)"
proof (induction isConnected connect h n pops rule: runDial_for.induct)
  case (1 isConnected connect h pops)
  show ?case by (simp add: popped_simps)
next
  case (2 isConnected connect h n)
  show ?case by (simp add: popped_simps)
next
  case (3 isConnected connect h n pops)
  show ?case by (simp add: popped_simps)
next
  case (4 isConnected connect h n tt pops)
  obtain h1 eff where t: "dial_task isConnected connect h tt = (h1, eff)"
    by (cases "dial_task isConnected connect h tt")
  have ih: "runDial_for isConnected connect h1 n pops =
     (fst (dial_tasks isConnected connect h1 (popped n pops)),
      snd (dial_tasks isConnected connect h1 (popped n pops)),
      fst (snd (snd (runDial_for isConnected connect h1 n pops))),
      if length (popped n pops) = n then AtSelect
      else if length (popped n pops) = length pops then InPop else Return)"
    using "4.IH" [OF t [symmetric]] by simp
  obtain h2 effs where d: "dial_tasks isConnected connect h1 (popped n pops) = (h2, effs)"
    by (cases "dial_tasks isConnected connect h1 (popped n pops)")
  obtain a b c e where r: "runDial_for isConnected connect h1 n pops = (a, b, c, e)"
    by (cases "runDial_for isConnected connect h1 n pops")
  show ?case using t ih d r by (simp add: popped_simps)
qed

lemma popped_length: "length (popped n pops) \<le> n"
  unfolding popped_def by (simp add: le_trans [OF length_takeWhile_le])

lemma dial_task_cases:
  "(isConnected h (ID tt) \<longrightarrow>
      dial_task isConnected connect h tt =
        (h, Emit \<lparr>PeerID = ID tt, Type = PeerEventDialConnectedNode, Desc = []\<rparr>)) \<and>
   (\<not> isConnected h (ID tt) \<longrightarrow>
      dial_task isConnected connect h tt = (fst (connect h tt), ConnectCall tt (snd (connect h tt))))"
  by (simp add: dial_task_def split: prod.splits)

lemma runDial_notify_iff:
  "runDial_notify evnt \<longleftrightarrow>
     Type evnt = PeerEventConnected \<or> Type evnt = PeerEventConnectedFailed
     \<or> Type evnt = PeerEventDisconnected"
  by (simp add: runDial_notify_def)

lemma runDial_wakes:
  "runDial isConnected connect [] h s numPending pops =
     runDial_for isConnected connect h (nat (sint (dial_slots s numPending))) pops"
  "snd (snd (snd (runDial_for isConnected connect h (nat (sint (dial_slots s numPending))) pops))) = AtSelect
   \<Longrightarrow> snd (snd (snd (runDial isConnected connect (CloseCh # wakes) h s numPending pops))) = Return"
  "snd (snd (snd (runDial_for isConnected connect h (nat (sint (dial_slots s numPending))) pops))) = AtSelect
   \<Longrightarrow> fst (snd (runDial isConnected connect (NotifyCh h' s' numPending' # wakes) h s numPending pops)) =
       fst (snd (runDial_for isConnected connect h (nat (sint (dial_slots s numPending))) pops)) @
       fst (snd (runDial isConnected connect wakes h' s' numPending'
         (fst (snd (snd (runDial_for isConnected connect h (nat (sint (dial_slots s numPending))) pops))))))"
  by (auto split: prod.splits)

lemma dial_tasks_length: "length (snd (dial_tasks isConnected connect h tts)) = length tts"
proof (induction tts arbitrary: h)
  case Nil
  show ?case by simp
next
  case (Cons tt tts)
  obtain h1 eff where t: "dial_task isConnected connect h tt = (h1, eff)"
    by (cases "dial_task isConnected connect h tt")
  obtain h2 effs where d: "dial_tasks isConnected connect h1 tts = (h2, effs)"
    by (cases "dial_tasks isConnected connect h1 tts")
  have "length effs = length tts" using Cons.IH [of h1] d by simp
  then show ?case using t d by simp
qed

lemma runDial_for_rest:
  "fst (snd (snd (runDial_for isConnected connect h n pops))) =
     drop (if length (popped n pops) = n \<or> length (popped n pops) = length pops
           then length (popped n pops) else Suc (length (popped n pops))) pops"
proof (induction isConnected connect h n pops rule: runDial_for.induct)
  case (1 isConnected connect h pops)
  show ?case by (simp add: popped_simps)
next
  case (2 isConnected connect h n)
  show ?case by (simp add: popped_simps)
next
  case (3 isConnected connect h n pops)
  show ?case by (simp add: popped_simps)
next
  case (4 isConnected connect h n tt pops)
  obtain h1 eff where t: "dial_task isConnected connect h tt = (h1, eff)"
    by (cases "dial_task isConnected connect h tt")
  obtain a b c e where r: "runDial_for isConnected connect h1 n pops = (a, b, c, e)"
    by (cases "runDial_for isConnected connect h1 n pops")
  have ih: "c = drop (if length (popped n pops) = n \<or> length (popped n pops) = length pops
           then length (popped n pops) else Suc (length (popped n pops))) pops"
    using "4.IH" [OF t [symmetric]] r by simp
  show ?case using t r ih by (simp add: popped_simps)
qed

lemma runDial_for_full:
  "runDial_for isConnected connect h n pops =
     (fst (dial_tasks isConnected connect h (popped n pops)),
      snd (dial_tasks isConnected connect h (popped n pops)),
      drop (if length (popped n pops) = n \<or> length (popped n pops) = length pops
            then length (popped n pops) else Suc (length (popped n pops))) pops,
      if length (popped n pops) = n then AtSelect
      else if length (popped n pops) = length pops then InPop else Return)"
  by (subst runDial_for_tasks, subst runDial_for_rest) simp

lemma popped_consumed:
  "(if length (popped n pops) = n \<or> length (popped n pops) = length pops
    then length (popped n pops) else Suc (length (popped n pops))) \<le> n"
  using popped_length [of n pops] by auto

text \<open>
  Claim C1, as amended. The budget is computed in signed 64-bit arithmetic from
  \<open>MaxPeers\<close> read as an \<open>int64\<close> and is never negative; when \<open>MaxPeers\<close> is below
  \<open>2^63\<close> and the two counts are not negative and their sum is below \<open>2^63\<close>, it is
  \<open>MaxPeers - (peers + pending)\<close> clamped at 0. Every round takes at most that many
  results from the queue and leaves the others in it: the tasks popped while the budget
  lasts and the queue is open are handled in turn, one effect for each, by emitting a
  \<open>PeerDialConnectedNode\<close> event and calling nothing when the transport reports the
  peer connected, and by a connect call otherwise. When the budget is used up the loop
  waits in its \<open>select\<close> (when the queue gives nothing it waits in \<open>pop\<close>, when the queue
  is closed it returns); \<open>closeCh\<close> makes it return and a value on \<open>notifyCh\<close> starts the
  next round; the handler offers that value exactly for the events \<open>PeerConnected\<close>,
  \<open>PeerConnectedFailed\<close> and \<open>PeerDisconnected\<close>.
\<close>

theorem runDial_budget_and_tasks:
  "(unat (MaxPeers s) < 2 ^ 63 \<and> 0 \<le> sint numPending \<and>
    int (length (peers s)) + sint numPending < 2 ^ 63 \<longrightarrow>
      sint (dial_slots s numPending) =
        max 0 (int (unat (MaxPeers s)) - (int (length (peers s)) + sint numPending))) \<and>
   0 \<le> sint (dial_slots s numPending) \<and>
   (let n = nat (sint (dial_slots s numPending));
        tasks = popped n pops;
        k = (if length tasks = n \<or> length tasks = length pops
             then length tasks else Suc (length tasks));
        ex = (if length tasks = n then AtSelect
              else if length tasks = length pops then InPop else Return);
        res = dial_tasks isConnected connect h tasks;
        nxt = runDial isConnected connect wakes h' s' numPending' (drop k pops)
    in k \<le> n \<and> length (snd res) = length tasks \<and>
       runDial isConnected connect [] h s numPending pops = (fst res, snd res, drop k pops, ex) \<and>
       runDial isConnected connect (CloseCh # wakes) h s numPending pops =
         (fst res, snd res, drop k pops, if ex = AtSelect then Return else ex) \<and>
       runDial isConnected connect (NotifyCh h' s' numPending' # wakes) h s numPending pops =
         (if ex = AtSelect then (fst nxt, snd res @ fst (snd nxt), snd (snd nxt))
          else (fst res, snd res, drop k pops, ex))) \<and>
   (isConnected h (ID tt) \<longrightarrow>
      dial_task isConnected connect h tt =
        (h, Emit \<lparr>PeerID = ID tt, Type = PeerEventDialConnectedNode, Desc = []\<rparr>)) \<and>
   (\<not> isConnected h (ID tt) \<longrightarrow>
      dial_task isConnected connect h tt = (fst (connect h tt), ConnectCall tt (snd (connect h tt)))) \<and>
   (runDial_notify evnt \<longleftrightarrow>
      Type evnt = PeerEventConnected \<or> Type evnt = PeerEventConnectedFailed
      \<or> Type evnt = PeerEventDisconnected)"
proof -
  let ?n = "nat (sint (dial_slots s numPending))"
  let ?k = "if length (popped ?n pops) = ?n \<or> length (popped ?n pops) = length pops
            then length (popped ?n pops) else Suc (length (popped ?n pops))"
  have a: "unat (MaxPeers s) < 2 ^ 63 \<and> 0 \<le> sint numPending \<and>
    int (length (peers s)) + sint numPending < 2 ^ 63 \<longrightarrow>
      sint (dial_slots s numPending) =
        max 0 (int (unat (MaxPeers s)) - (int (length (peers s)) + sint numPending))"
    using slots_exact [of s numPending] by blast
  have b: "0 \<le> sint (dial_slots s numPending)" by (rule slots_nonneg)
  have c: "?k \<le> ?n" by (rule popped_consumed)
  have d: "length (snd (dial_tasks isConnected connect h (popped ?n pops))) = length (popped ?n pops)"
    by (rule dial_tasks_length)
  note f = runDial_for_full [of isConnected connect h ?n pops]
  have r0: "runDial isConnected connect [] h s numPending pops =
      runDial_for isConnected connect h ?n pops"
    by simp
  have r1: "runDial isConnected connect (CloseCh # wakes) h s numPending pops =
      (case runDial_for isConnected connect h ?n pops of
         (h1, effs, rest, ex) \<Rightarrow> (h1, effs, rest, if ex = AtSelect then Return else ex))"
    by simp
  have r2: "runDial isConnected connect (NotifyCh h' s' numPending' # wakes) h s numPending pops =
      (case runDial_for isConnected connect h ?n pops of
         (h1, effs, rest, ex) \<Rightarrow>
           (if ex = AtSelect then
              (case runDial isConnected connect wakes h' s' numPending' rest of
                 (h2, effs2, rest2, ex2) \<Rightarrow> (h2, effs @ effs2, rest2, ex2))
            else (h1, effs, rest, ex)))"
    by simp
  have loop: "let n = nat (sint (dial_slots s numPending));
        tasks = popped n pops;
        k = (if length tasks = n \<or> length tasks = length pops
             then length tasks else Suc (length tasks));
        ex = (if length tasks = n then AtSelect
              else if length tasks = length pops then InPop else Return);
        res = dial_tasks isConnected connect h tasks;
        nxt = runDial isConnected connect wakes h' s' numPending' (drop k pops)
    in k \<le> n \<and> length (snd res) = length tasks \<and>
       runDial isConnected connect [] h s numPending pops = (fst res, snd res, drop k pops, ex) \<and>
       runDial isConnected connect (CloseCh # wakes) h s numPending pops =
         (fst res, snd res, drop k pops, if ex = AtSelect then Return else ex) \<and>
       runDial isConnected connect (NotifyCh h' s' numPending' # wakes) h s numPending pops =
         (if ex = AtSelect then (fst nxt, snd res @ fst (snd nxt), snd (snd nxt))
          else (fst res, snd res, drop k pops, ex))"
    unfolding Let_def r0 r1 r2 using c d
    by (subst (1 2 3) f) (simp add: case_prod_beta)
  note e = dial_task_cases [of isConnected h tt connect]
  note g = runDial_notify_iff [of evnt]
  show ?thesis using a b loop e g by blast
qed

text \<open>
  Claim C1 as amended, at a server with a budget of 2 and three tasks waiting, the first
  for a peer that is connected already.
\<close>

theorem runDial_budget_and_tasks_witness:
  "sint (dial_slots (NewServer 2 ''QmA'') 0) = 2 \<and>
   runDial (\<lambda>h i. i \<in> set h) (\<lambda>h a. (h @ [ID a], None)) [] [''QmB''] (NewServer 2 ''QmA'') 0
     [Some \<lparr>ID = ''QmB'', Addrs = [''/ip4/10.0.0.2/tcp/1478'']\<rparr>,
      Some \<lparr>ID = ''QmC'', Addrs = [''/ip4/10.0.0.3/tcp/1478'']\<rparr>,
      Some \<lparr>ID = ''QmD'', Addrs = [''/ip4/10.0.0.4/tcp/1478'']\<rparr>]
   = ([''QmB'', ''QmC''],
      [Emit \<lparr>PeerID = ''QmB'', Type = PeerEventDialConnectedNode, Desc = []\<rparr>,
       ConnectCall \<lparr>ID = ''QmC'', Addrs = [''/ip4/10.0.0.3/tcp/1478'']\<rparr> None],
      [Some \<lparr>ID = ''QmD'', Addrs = [''/ip4/10.0.0.4/tcp/1478'']\<rparr>],
      AtSelect)"
proof -
  have s: "sint (dial_slots (NewServer 2 ''QmA'') 0) = 2"
    using runDial_budget_and_tasks [where s = "NewServer 2 ''QmA''" and numPending = 0,
        THEN conjunct1]
    by (simp add: NewServer_def)
  show ?thesis using s by (simp add: dial_task_def numeral_2_eq_2)
qed

text \<open>
  Claim C1 as stated fails when \<open>MaxPeers\<close> is \<open>2^63\<close>: with no peer and nothing
  pending the budget of the claim is \<open>2^63\<close>, the budget of the code is 0, and with a
  task waiting in the queue the loop pops nothing and waits in its \<open>select\<close>.
\<close>

theorem runDial_budget_wraps:
  "sint (dial_slots (NewServer 0x8000000000000000 ''QmA'') 0) = 0 \<and>
   max 0 (int (unat (MaxPeers (NewServer 0x8000000000000000 ''QmA''))) -
          (int (length (peers (NewServer 0x8000000000000000 ''QmA''))) + sint (0 :: 64 word)))
     = 9223372036854775808 \<and>
   runDial (\<lambda>h i. False) (\<lambda>h a. (h, None)) [] () (NewServer 0x8000000000000000 ''QmA'') 0
     [Some \<lparr>ID = ''QmB'', Addrs = [''/ip4/10.0.0.2/tcp/1478'']\<rparr>]
   = ((), [], [Some \<lparr>ID = ''QmB'', Addrs = [''/ip4/10.0.0.2/tcp/1478'']\<rparr>], AtSelect)"
  by (simp add: dial_slots_def Let_def NewServer_def numPeers_def word_sless_alt)

section \<open>Properties of subscriptions\<close>

text \<open>
  As long as the process lives, the channel of a handle is never closed, so \<open>Get\<close>
  never yields the zero value of a closed channel.
\<close>

lemma sub_step_ch_open:
  "sub_step s x = Inr s' \<Longrightarrow> \<not> is_closed (ch s) \<Longrightarrow> \<not> is_closed (ch s')"
  by (cases x)
    (auto simp add: bus_emit_def Subscription_run_def Get_def chan_recv_def Subscription_Close_def
      split: list.splits prod.splits recv.splits if_splits)

lemma sub_steps_ch_open:
  "sub_steps s xs = Inr s' \<Longrightarrow> \<not> is_closed (ch s) \<Longrightarrow> \<not> is_closed (ch s')"
proof (induction xs arbitrary: s)
  case Nil
  then show ?case by simp
next
  case (Cons x xs)
  then obtain s1 where 1: "sub_step s x = Inr s1" and 2: "sub_steps s1 xs = Inr s'"
    by (auto split: sum.splits)
  show ?case using Cons.IH [OF 2] sub_step_ch_open [OF 1 Cons.prems(2)] by simp
qed

lemma Get_not_Zero: "\<not> is_closed (ch s) \<Longrightarrow> fst (Get s) \<noteq> Zero"
  by (simp add: Get_def chan_recv_def split: list.splits)

lemma Get_never_ends:
  assumes "sub_steps Subscribe xs = Inr s"
  shows "fst (Get s) \<noteq> Zero"
proof -
  have "\<not> is_closed (ch Subscribe)" by (simp add: Subscribe_def)
  from sub_steps_ch_open [OF assms this] show ?thesis by (rule Get_not_Zero)
qed

text \<open>
  Once a handle is closed and what the bus had delivered is forwarded, the next turn of
  \<open>run\<close> panics.
\<close>

lemma Subscription_run_after_Close:
  "queue (sub s) = [] \<Longrightarrow> queue (ch s) = [] \<Longrightarrow>
   Subscription_run (Subscription_Close s) =
     Inl (Panic ''interface conversion: interface {} is nil, not network.PeerEvent'')"
  by (simp add: Subscription_run_def Subscription_Close_def chan_recv_def)

text \<open>
  Claim C9, where the code departs from it. A handle is closed while a caller waits in
  \<open>Get\<close>: the channel of the handle is not closed, so \<open>Get\<close> still blocks and reports no
  end of the stream; and the goroutine \<open>run\<close> of the handle, woken by the closing of the
  bus channel, panics on its type assertion, which ends the process.
\<close>

theorem Subscription_Close_panics_run:
  "fst (Get (Subscription_Close Subscribe)) = Blocks \<and>
   \<not> is_closed (ch (Subscription_Close Subscribe)) \<and>
   sub_steps Subscribe [CallClose, RunTurn] =
     Inl (Panic ''interface conversion: interface {} is nil, not network.PeerEvent'') \<and>
   sub_steps Subscribe
     [BusEmit \<lparr>PeerID = ''QmB'', Type = PeerEventConnected, Desc = []\<rparr>, RunTurn, CallGet,
      CallClose, RunTurn] =
     Inl (Panic ''interface conversion: interface {} is nil, not network.PeerEvent'')"
  by (simp add: Subscribe_def Subscription_Close_def Get_def chan_recv_def bus_emit_def
      Subscription_run_def)

section \<open>Properties of the discovery service\<close>

text \<open>
  Claim C3, where the code departs from it. When the lookup at the chosen peer fails
  (the stream cannot be opened, the call fails, or an address of the answer does not
  parse), \<open>handleDiscovery\<close> does not end the cycle quietly: it panics with the error.
  The routing table, the peer list and the peerstore are then as before the lookup.
\<close>

theorem handleDiscovery_lookup_failure_panics:
  assumes "disc_peers d \<noteq> []"
    and "findPeersCall newMultiaddr addrInfoFromP2pAddr remote
           (disc_peers d ! (r mod length (disc_peers d))) = Inl f"
  shows "handleDiscovery newMultiaddr addrInfoFromP2pAddr remote tryAddPeer d r =
           (d, Some (Panic (case f of Error err \<Rightarrow> err | Panic msg \<Rightarrow> msg)))"
  using assms
  by (cases f) (simp_all add: handleDiscovery_def call_def Let_def)

text \<open>
  Claim C3 at a lookup whose call fails with a timeout.
\<close>

theorem handleDiscovery_lookup_failure_panics_witness:
  "handleDiscovery (\<lambda>a. Inr a) (\<lambda>m. Inr \<lparr>ID = m, Addrs = [m]\<rparr>)
      (\<lambda>p. CallFailed ''context deadline exceeded'')
      (\<lambda>rt p. Inr (p \<notin> set rt, if p \<in> set rt then rt else rt @ [p]))
      \<lparr>routingTable = [''QmB''], disc_peers = [''QmB''], peerstore = []\<rparr> 7
   = (\<lparr>routingTable = [''QmB''], disc_peers = [''QmB''], peerstore = []\<rparr>,
      Some (Panic ''context deadline exceeded''))"
  using handleDiscovery_lookup_failure_panics [of
      "\<lparr>routingTable = [''QmB''], disc_peers = [''QmB''], peerstore = []\<rparr>"
      "\<lambda>a. Inr a" "\<lambda>m. Inr \<lparr>ID = m, Addrs = [m]\<rparr>"
      "\<lambda>p. CallFailed ''context deadline exceeded''" 7 "Error ''context deadline exceeded''"
      "\<lambda>rt p. Inr (p \<notin> set rt, if p \<in> set rt then rt else rt @ [p])"]
  by (simp add: findPeersCall_def)

text \<open>
  Claim C4, where the code departs from it. The goroutine of \<open>syncConnectedPeers\<close>
  does not look at the kind of the event: for every event whose peer the routing table
  accepts, the peer goes into the table and is appended to the peer list.
\<close>

theorem syncConnectedPeers_adds_for_any_event:
  assumes "tryAddPeer (routingTable d) (PeerID evnt) = Inr (added, rt)"
  shows "syncConnectedPeers_event tryAddPeer d evnt =
           Inr (d\<lparr>routingTable := rt, disc_peers := disc_peers d @ [PeerID evnt]\<rparr>)"
  using assms by (simp add: syncConnectedPeers_event_def Let_def)

text \<open>
  Claim C4 at a \<open>PeerConnectedFailed\<close> event, the only event seen for the peer \<open>QmB\<close>:
  the peer is in the routing table and in the peer list afterwards.
\<close>

theorem syncConnectedPeers_adds_for_any_event_witness:
  "syncConnectedPeers_event (\<lambda>rt p. Inr (p \<notin> set rt, if p \<in> set rt then rt else rt @ [p]))
      \<lparr>routingTable = [], disc_peers = [], peerstore = []\<rparr>
      \<lparr>PeerID = ''QmB'', Type = PeerEventConnectedFailed, Desc = ''dial failed''\<rparr>
   = Inr \<lparr>routingTable = [''QmB''], disc_peers = [''QmB''], peerstore = []\<rparr>"
  using syncConnectedPeers_adds_for_any_event [of
      "\<lambda>rt p. Inr (p \<notin> set rt, if p \<in> set rt then rt else rt @ [p])"
      "\<lparr>routingTable = [], disc_peers = [], peerstore = []\<rparr>"
      "\<lparr>PeerID = ''QmB'', Type = PeerEventConnectedFailed, Desc = ''dial failed''\<rparr>"
      True "[''QmB'']"]
  by simp

text \<open>
  The peer list gets one entry for each event: a peer that connected and disconnected
  is in it twice, and stays a candidate of the random choice of \<open>handleDiscovery\<close>.
\<close>

lemma syncConnectedPeers_keeps_every_event:
  "syncConnectedPeers (\<lambda>rt p. Inr (p \<notin> set rt, if p \<in> set rt then rt else rt @ [p]))
      \<lparr>routingTable = [], disc_peers = [], peerstore = []\<rparr>
      [\<lparr>PeerID = ''QmB'', Type = PeerEventConnected, Desc = []\<rparr>,
       \<lparr>PeerID = ''QmC'', Type = PeerEventConnected, Desc = []\<rparr>,
       \<lparr>PeerID = ''QmB'', Type = PeerEventDisconnected, Desc = []\<rparr>]
   = Inr \<lparr>routingTable = [''QmB'', ''QmC''], disc_peers = [''QmB'', ''QmC'', ''QmB''],
          peerstore = []\<rparr>"
  by (simp add: syncConnectedPeers_event_def Let_def)

end
